theory Spec2Isabelle
  imports Complex_Main "HOL-Library.Word"
begin

unbundle bit_operations_syntax

section \<open>The machine state of millis.c\<close>

type_synonym u8 = "8 word"
type_synonym u32 = "32 word"

text \<open>
  The I/O registers that \<^verbatim>\<open>millis.c\<close> names: the five Timer0 registers written by
  \<^verbatim>\<open>millis_Init\<close>, and the status register \<^verbatim>\<open>SREG\<close>, whose I-bit is the global
  interrupt enable (named in the comment of the interrupt service routine).
\<close>

datatype reg = TCCR0A | TCCR0B | TIMSK0 | TIFR0 | OCR0A | SREG

text \<open>
  The state is the register file, seen as a map from register names to bytes, and the
  global \<^verbatim>\<open>volatile uint32_t System_millis\<close>. Everything else of the machine is the
  extension part of the record, which no operation of this file touches.
\<close>

record avr_state =
  regs :: "reg \<Rightarrow> u8"
  System_millis :: u32

text \<open>\<^verbatim>\<open>volatile uint32_t System_millis = 0;\<close> (millis.c, line 38): the declared initial value.\<close>

definition System_millis_init :: u32 where
  "System_millis_init = 0"

text \<open>
  The bit numbers \<^verbatim>\<open>WGM00\<close>, ..., \<^verbatim>\<open>OCF0A\<close> come from the device header of the
  toolchain, which is not among the sources. They are a parameter of the model.
\<close>

record timer0_bits =
  WGM00 :: nat
  WGM01 :: nat
  WGM02 :: nat
  CS00 :: nat
  CS01 :: nat
  CS02 :: nat
  OCIE0A :: nat
  OCF0A :: nat

text \<open>
  The bits are usable when each fits the 8-bit register and the bits that share a
  register are different: \<^verbatim>\<open>WGM00\<close>, \<^verbatim>\<open>WGM01\<close> in \<^verbatim>\<open>TCCR0A\<close>;
  \<^verbatim>\<open>WGM02\<close>, \<^verbatim>\<open>CS00\<close>, \<^verbatim>\<open>CS01\<close>, \<^verbatim>\<open>CS02\<close> in \<^verbatim>\<open>TCCR0B\<close>.
\<close>

definition wf_bits :: "timer0_bits \<Rightarrow> bool" where
  "wf_bits b =
     (WGM00 b < 8 \<and> WGM01 b < 8 \<and> WGM02 b < 8 \<and> CS00 b < 8 \<and> CS01 b < 8 \<and> CS02 b < 8
      \<and> OCIE0A b < 8 \<and> OCF0A b < 8
      \<and> WGM00 b \<noteq> WGM01 b
      \<and> WGM02 b \<noteq> CS00 b \<and> WGM02 b \<noteq> CS01 b \<and> WGM02 b \<noteq> CS02 b
      \<and> CS00 b \<noteq> CS01 b \<and> CS00 b \<noteq> CS02 b \<and> CS01 b \<noteq> CS02 b)"

text \<open>
  One concrete assignment, the bit numbers of the ATmega328 data sheet
  (\<^verbatim>\<open>WGM01:WGM00\<close> are bits 1:0 of \<^verbatim>\<open>TCCR0A\<close>; \<^verbatim>\<open>WGM02\<close> is bit 3 and
  \<^verbatim>\<open>CS02:CS00\<close> are bits 2:0 of \<^verbatim>\<open>TCCR0B\<close>; \<^verbatim>\<open>OCIE0A\<close> and \<^verbatim>\<open>OCF0A\<close> are bit 1).
  It is used to instantiate the general theorems only.
\<close>

definition atmega328_bits :: timer0_bits where
  "atmega328_bits =
     \<lparr>WGM00 = 0, WGM01 = 1, WGM02 = 3, CS00 = 0, CS01 = 1, CS02 = 2, OCIE0A = 1, OCF0A = 1\<rparr>"

section \<open>The register primitives\<close>

text \<open>
  Modelled from the spec: the macros \<^verbatim>\<open>bitSet\<close>, \<^verbatim>\<open>bitClear\<close> and
  \<^verbatim>\<open>intFlag_clear\<close> are defined in \<^verbatim>\<open>aKaReZa.h\<close>, which is not among the sources. The
  specification names them as the collaborator's bit-set and bit-clear operations on the
  timer configuration registers and its interrupt-flag-clear primitive. \<^verbatim>\<open>bitSet\<close>
  makes one bit of the register 1, \<^verbatim>\<open>bitClear\<close> makes it 0, and after
  \<^verbatim>\<open>intFlag_clear\<close> the named flag reads 0; the other bits of the register and every
  other register stay as they are. A bit number beyond the register's width selects no
  bit (\<^verbatim>\<open>1 << n\<close> truncated to 8 bits is 0).
\<close>

definition bitSet :: "reg \<Rightarrow> nat \<Rightarrow> 'a avr_state_scheme \<Rightarrow> 'a avr_state_scheme" where
  "bitSet r n s = s\<lparr>regs := (regs s)(r := regs s r OR push_bit n 1)\<rparr>"

definition bitClear :: "reg \<Rightarrow> nat \<Rightarrow> 'a avr_state_scheme \<Rightarrow> 'a avr_state_scheme" where
  "bitClear r n s = s\<lparr>regs := (regs s)(r := regs s r AND NOT (push_bit n 1))\<rparr>"

definition intFlag_clear :: "reg \<Rightarrow> nat \<Rightarrow> 'a avr_state_scheme \<Rightarrow> 'a avr_state_scheme" where
  "intFlag_clear r n s = s\<lparr>regs := (regs s)(r := regs s r AND NOT (push_bit n 1))\<rparr>"

text \<open>The assignment \<^verbatim>\<open>REG = value;\<close> to a register.\<close>

definition assign :: "reg \<Rightarrow> u8 \<Rightarrow> 'a avr_state_scheme \<Rightarrow> 'a avr_state_scheme" where
  "assign r v s = s\<lparr>regs := (regs s)(r := v)\<rparr>"

section \<open>The interrupt service routine\<close>

text \<open>\<^verbatim>\<open>ISR(TIMER0_COMPA_vect) { System_millis++; }\<close> on a 32-bit unsigned counter.\<close>

definition TIMER0_COMPA_vect :: "'a avr_state_scheme \<Rightarrow> 'a avr_state_scheme" where
  "TIMER0_COMPA_vect s = s\<lparr>System_millis := System_millis s + 1\<rparr>"

section \<open>Initialisation\<close>

text \<open>
  The body of \<^verbatim>\<open>millis_Init\<close> is a straight line of nine statements. They are kept as
  a list, in the order of the source, so that the order is a property one can state.
\<close>

datatype stmt =
    BitSet reg nat
  | BitClear reg nat
  | IntFlagClear reg nat
  | Assign reg u8

fun exec :: "stmt \<Rightarrow> 'a avr_state_scheme \<Rightarrow> 'a avr_state_scheme" where
  "exec (BitSet r n) s = bitSet r n s"
| "exec (BitClear r n) s = bitClear r n s"
| "exec (IntFlagClear r n) s = intFlag_clear r n s"
| "exec (Assign r v) s = assign r v s"

text \<open>The register a statement writes.\<close>

fun target :: "stmt \<Rightarrow> reg" where
  "target (BitSet r n) = r"
| "target (BitClear r n) = r"
| "target (IntFlagClear r n) = r"
| "target (Assign r v) = r"

definition millis_Init_body :: "timer0_bits \<Rightarrow> stmt list" where
  "millis_Init_body b =
     [BitClear TCCR0A (WGM00 b),
      BitSet TCCR0A (WGM01 b),
      BitClear TCCR0B (WGM02 b),
      BitSet TCCR0B (CS00 b),
      BitSet TCCR0B (CS01 b),
      BitClear TCCR0B (CS02 b),
      BitSet TIMSK0 (OCIE0A b),
      IntFlagClear TIFR0 (OCF0A b),
      Assign OCR0A 249]"

text \<open>Running statements one after the other, the first of the list first.\<close>

definition run :: "stmt list \<Rightarrow> 'a avr_state_scheme \<Rightarrow> 'a avr_state_scheme" where
  "run ss s = fold exec ss s"

definition millis_Init :: "timer0_bits \<Rightarrow> 'a avr_state_scheme \<Rightarrow> 'a avr_state_scheme" where
  "millis_Init b s = run (millis_Init_body b) s"

text \<open>
  \<open>precedes x y zs\<close>: the first occurrence of \<open>x\<close> in \<open>zs\<close> is followed, later in the
  list, by an occurrence of \<open>y\<close>.
\<close>

fun precedes :: "'a \<Rightarrow> 'a \<Rightarrow> 'a list \<Rightarrow> bool" where
  "precedes x y [] = False"
| "precedes x y (z # zs) = (if z = x then y \<in> set zs else precedes x y zs)"

text \<open>
  The numeric contract in the specification's words: for the clock frequency \<open>F\<close> (in Hz)
  and the prescaler divisor \<open>D\<close>, the threshold is \<open>round (F / D / 1000) - 1\<close>.
\<close>

definition spec_threshold :: "nat \<Rightarrow> nat \<Rightarrow> int" where
  "spec_threshold F D = round (rat_of_nat F / rat_of_nat D / 1000) - 1"

section \<open>The interval timer\<close>

text \<open>The struct \<^verbatim>\<open>millis_T\<close> of millis.h: three \<^verbatim>\<open>uint32_t\<close> fields.\<close>

record millis_T =
  Previous :: u32
  Delta :: u32
  Interval :: u32

text \<open>
  Modelled from the spec: the operations \<^verbatim>\<open>elapsed\<close>, \<^verbatim>\<open>expired\<close> and \<^verbatim>\<open>advance\<close>
  of the interval timer are not functions of the sources; the header declares the struct
  only and shows the client's statements in its usage example. \<^verbatim>\<open>elapsed\<close> computes
  \<open>now - previous\<close> with wrapping unsigned subtraction, does not change \<open>previous\<close>
  and caches the result in \<open>delta\<close>, as the header's example
  \<^verbatim>\<open>ledTimer.Delta = System_millis - ledTimer.Previous\<close> does: it returns the value
  together with the timer. \<^verbatim>\<open>expired\<close> is true if the elapsed time is at least the
  interval (\<^verbatim>\<open>ledTimer.Delta >= ledTimer.Interval\<close>, an unsigned comparison).
  \<^verbatim>\<open>advance\<close> sets \<open>previous\<close> to \<open>now\<close>.
\<close>

definition elapsed :: "millis_T \<Rightarrow> u32 \<Rightarrow> u32 \<times> millis_T" where
  "elapsed t now = (now - Previous t, t\<lparr>Delta := now - Previous t\<rparr>)"

definition expired :: "millis_T \<Rightarrow> u32 \<Rightarrow> bool" where
  "expired t now = (fst (elapsed t now) \<ge> Interval t)"

definition advance :: "millis_T \<Rightarrow> u32 \<Rightarrow> millis_T" where
  "advance t now = t\<lparr>Previous := now\<rparr>"

section \<open>Basic facts about the primitives\<close>

lemma regs_bitSet: "regs (bitSet r n s) = (regs s)(r := regs s r OR push_bit n 1)"
  by (simp add: bitSet_def)

lemma regs_bitClear: "regs (bitClear r n s) = (regs s)(r := regs s r AND NOT (push_bit n 1))"
  by (simp add: bitClear_def)

lemma regs_intFlag_clear:
  "regs (intFlag_clear r n s) = (regs s)(r := regs s r AND NOT (push_bit n 1))"
  by (simp add: intFlag_clear_def)

lemma regs_assign: "regs (assign r v s) = (regs s)(r := v)"
  by (simp add: assign_def)

lemma System_millis_exec: "System_millis (exec st s) = System_millis s"
  by (cases st) (simp_all add: bitSet_def bitClear_def intFlag_clear_def assign_def)

lemma more_exec: "avr_state.more (exec st s) = avr_state.more s"
  by (cases st) (simp_all add: bitSet_def bitClear_def intFlag_clear_def assign_def)

lemma System_millis_run: "System_millis (run ss s) = System_millis s"
  unfolding run_def by (induction ss arbitrary: s) (simp_all add: System_millis_exec)

lemma more_run: "avr_state.more (run ss s) = avr_state.more s"
  unfolding run_def by (induction ss arbitrary: s) (simp_all add: more_exec)

text \<open>The body, unrolled: the innermost call is the first statement of the source.\<close>

lemma millis_Init_unfold:
  "millis_Init b s =
     assign OCR0A 249 (intFlag_clear TIFR0 (OCF0A b) (bitSet TIMSK0 (OCIE0A b)
       (bitClear TCCR0B (CS02 b) (bitSet TCCR0B (CS01 b) (bitSet TCCR0B (CS00 b)
         (bitClear TCCR0B (WGM02 b) (bitSet TCCR0A (WGM01 b)
           (bitClear TCCR0A (WGM00 b) s))))))))"
  by (simp add: millis_Init_def run_def millis_Init_body_def)

text \<open>The register file after \<open>millis_Init\<close>, as a function of the one before.\<close>

lemma regs_millis_Init:
  "regs (millis_Init b s) = (regs s)
     (TCCR0A := (regs s TCCR0A AND NOT (push_bit (WGM00 b) 1)) OR push_bit (WGM01 b) 1,
      TCCR0B := (((regs s TCCR0B AND NOT (push_bit (WGM02 b) 1)) OR push_bit (CS00 b) 1)
                    OR push_bit (CS01 b) 1) AND NOT (push_bit (CS02 b) 1),
      TIMSK0 := regs s TIMSK0 OR push_bit (OCIE0A b) 1,
      TIFR0 := regs s TIFR0 AND NOT (push_bit (OCF0A b) 1),
      OCR0A := 249)"
  by (simp add: millis_Init_unfold regs_bitSet regs_bitClear regs_intFlag_clear regs_assign
      fun_eq_iff)

lemma System_millis_millis_Init: "System_millis (millis_Init b s) = System_millis s"
  by (simp add: millis_Init_def System_millis_run)

lemma more_millis_Init: "avr_state.more (millis_Init b s) = avr_state.more s"
  by (simp add: millis_Init_def more_run)

lemma spec_threshold_16MHz_64: "spec_threshold 16000000 64 = 249"
  by (simp add: spec_threshold_def)

lemma wf_atmega328_bits: "wf_bits atmega328_bits"
  by (simp add: wf_bits_def atmega328_bits_def)

text \<open>Each register's update is idempotent, whatever the bit numbers are.\<close>

lemma clear_set_idem:
  fixes x :: u8
  shows "(((x AND NOT (push_bit i 1)) OR push_bit j 1) AND NOT (push_bit i 1)) OR push_bit j 1
         = (x AND NOT (push_bit i 1)) OR push_bit j 1"
  by (rule bit_word_eqI) (auto simp: bit_simps)

lemma prescaler_idem:
  fixes x :: u8
  shows "((((((((x AND NOT (push_bit w 1)) OR push_bit i 1) OR push_bit j 1)
              AND NOT (push_bit k 1)) AND NOT (push_bit w 1)) OR push_bit i 1)
              OR push_bit j 1) AND NOT (push_bit k 1))
         = (((x AND NOT (push_bit w 1)) OR push_bit i 1) OR push_bit j 1)
              AND NOT (push_bit k 1)"
  by (rule bit_word_eqI) (auto simp: bit_simps)

section \<open>The claims\<close>

text \<open>
  C1: after \<open>millis_Init\<close>, the compare register \<^verbatim>\<open>OCR0A\<close> holds 249, which is the
  specification's threshold \<open>round (F / D / 1000) - 1\<close> for \<open>F\<close> = 16 MHz and \<open>D\<close> = 64, and
  the prescaler-select bits \<^verbatim>\<open>CS02:CS00\<close> of \<^verbatim>\<open>TCCR0B\<close> are 0, 1, 1 (binary 011).
\<close>

theorem millis_Init_threshold_prescaler:
  assumes "wf_bits b"
  shows "regs (millis_Init b s) OCR0A = 249
       \<and> uint (regs (millis_Init b s) OCR0A) = spec_threshold 16000000 64
       \<and> \<not> bit (regs (millis_Init b s) TCCR0B) (CS02 b)
       \<and> bit (regs (millis_Init b s) TCCR0B) (CS01 b)
       \<and> bit (regs (millis_Init b s) TCCR0B) (CS00 b)"
  using assms
  by (simp add: regs_millis_Init spec_threshold_16MHz_64 wf_bits_def bit_simps)

theorem millis_Init_threshold_prescaler_witness:
  "wf_bits atmega328_bits
   \<and> regs (millis_Init atmega328_bits \<lparr>regs = (\<lambda>_. 255), System_millis = 0\<rparr>) OCR0A = 249
   \<and> uint (regs (millis_Init atmega328_bits \<lparr>regs = (\<lambda>_. 255), System_millis = 0\<rparr>) OCR0A)
       = spec_threshold 16000000 64
   \<and> \<not> bit (regs (millis_Init atmega328_bits \<lparr>regs = (\<lambda>_. 255), System_millis = 0\<rparr>) TCCR0B)
         (CS02 atmega328_bits)
   \<and> bit (regs (millis_Init atmega328_bits \<lparr>regs = (\<lambda>_. 255), System_millis = 0\<rparr>) TCCR0B)
         (CS01 atmega328_bits)
   \<and> bit (regs (millis_Init atmega328_bits \<lparr>regs = (\<lambda>_. 255), System_millis = 0\<rparr>) TCCR0B)
         (CS00 atmega328_bits)"
proof -
  have h: "wf_bits atmega328_bits"
    by (simp add: wf_bits_def atmega328_bits_def)
  show ?thesis
    using h millis_Init_threshold_prescaler
      [OF h, of "\<lparr>regs = (\<lambda>_. 255), System_millis = 0\<rparr>"]
    by (rule conjI)
qed

text \<open>
  C2, as the claim states it, puts the write of the threshold before the enabling of the
  compare-match interrupt. In the source the write to \<^verbatim>\<open>OCR0A\<close> is the last statement:
  no write to \<^verbatim>\<open>TIMSK0\<close> follows it.
\<close>

theorem millis_Init_order_counterexample:
  "\<not> precedes OCR0A TIMSK0 (map target (millis_Init_body atmega328_bits))"
  by (simp add: millis_Init_body_def)

text \<open>
  C2, amended: \<open>millis_Init\<close> performs its steps in this order. Its first six statements
  configure the timer into CTC mode with the fixed prescaler: after them \<^verbatim>\<open>TCCR0A\<close>
  and \<^verbatim>\<open>TCCR0B\<close> hold their final values and no other register has been written.
  The seventh statement enables the compare-match interrupt source and writes
  \<^verbatim>\<open>TIMSK0\<close> only; the eighth clears the pending flag and writes \<^verbatim>\<open>TIFR0\<close> only;
  the ninth and last sets the threshold \<^verbatim>\<open>OCR0A\<close> to 249, so that the threshold still
  has the value of the call while the interrupt source is being enabled and the flag
  cleared. On return the timer is in CTC mode (\<^verbatim>\<open>WGM02:WGM00\<close> = 010) with prescaler
  bits 011, the compare-match A interrupt is enabled and its pending flag reads 0.
\<close>

theorem millis_Init_order:
  assumes "wf_bits b"
  shows "regs (run (take 6 (millis_Init_body b)) s)
           = (regs s)(TCCR0A := regs (millis_Init b s) TCCR0A,
                      TCCR0B := regs (millis_Init b s) TCCR0B)
       \<and> regs (run (take 7 (millis_Init_body b)) s)
           = (regs (run (take 6 (millis_Init_body b)) s))
               (TIMSK0 := regs (millis_Init b s) TIMSK0)
       \<and> regs (run (take 8 (millis_Init_body b)) s)
           = (regs (run (take 7 (millis_Init_body b)) s))
               (TIFR0 := regs (millis_Init b s) TIFR0)
       \<and> regs (millis_Init b s)
           = (regs (run (take 8 (millis_Init_body b)) s))(OCR0A := 249)
       \<and> \<not> bit (regs (millis_Init b s) TCCR0B) (WGM02 b)
       \<and> bit (regs (millis_Init b s) TCCR0A) (WGM01 b)
       \<and> \<not> bit (regs (millis_Init b s) TCCR0A) (WGM00 b)
       \<and> \<not> bit (regs (millis_Init b s) TCCR0B) (CS02 b)
       \<and> bit (regs (millis_Init b s) TCCR0B) (CS01 b)
       \<and> bit (regs (millis_Init b s) TCCR0B) (CS00 b)
       \<and> bit (regs (millis_Init b s) TIMSK0) (OCIE0A b)
       \<and> \<not> bit (regs (millis_Init b s) TIFR0) (OCF0A b)"
proof -
  have six: "regs (run (take 6 (millis_Init_body b)) s)
           = (regs s)(TCCR0A := regs (millis_Init b s) TCCR0A,
                      TCCR0B := regs (millis_Init b s) TCCR0B)"
    by (simp add: millis_Init_body_def run_def regs_millis_Init regs_bitSet regs_bitClear
        fun_eq_iff)
  have seven: "regs (run (take 7 (millis_Init_body b)) s)
           = (regs (run (take 6 (millis_Init_body b)) s))
               (TIMSK0 := regs (millis_Init b s) TIMSK0)"
    by (simp add: millis_Init_body_def run_def regs_millis_Init regs_bitSet regs_bitClear
        fun_eq_iff)
  have eight: "regs (run (take 8 (millis_Init_body b)) s)
           = (regs (run (take 7 (millis_Init_body b)) s))
               (TIFR0 := regs (millis_Init b s) TIFR0)"
    by (simp add: millis_Init_body_def run_def regs_millis_Init regs_bitSet regs_bitClear
        regs_intFlag_clear fun_eq_iff)
  have nine: "regs (millis_Init b s)
           = (regs (run (take 8 (millis_Init_body b)) s))(OCR0A := 249)"
    by (simp add: millis_Init_body_def run_def regs_millis_Init regs_bitSet regs_bitClear
        regs_intFlag_clear fun_eq_iff)
  have final: "\<not> bit (regs (millis_Init b s) TCCR0B) (WGM02 b)
       \<and> bit (regs (millis_Init b s) TCCR0A) (WGM01 b)
       \<and> \<not> bit (regs (millis_Init b s) TCCR0A) (WGM00 b)
       \<and> \<not> bit (regs (millis_Init b s) TCCR0B) (CS02 b)
       \<and> bit (regs (millis_Init b s) TCCR0B) (CS01 b)
       \<and> bit (regs (millis_Init b s) TCCR0B) (CS00 b)
       \<and> bit (regs (millis_Init b s) TIMSK0) (OCIE0A b)
       \<and> \<not> bit (regs (millis_Init b s) TIFR0) (OCF0A b)"
    using assms by (simp add: regs_millis_Init wf_bits_def bit_simps)
  from six seven eight nine final show ?thesis
    by blast
qed

text \<open>
  The instance starts from a state in which every statement has something to change:
  \<^verbatim>\<open>WGM00\<close>, \<^verbatim>\<open>WGM02\<close>, \<^verbatim>\<open>CS02\<close> and the pending flag are set, and the other
  bits are clear.
\<close>

theorem millis_Init_order_witness:
  "wf_bits atmega328_bits
   \<and> (regs (run (take 6 (millis_Init_body atmega328_bits)) 
            \<lparr>regs = (\<lambda>_. 0)(TCCR0A := 1, TCCR0B := 12, TIFR0 := 2), System_millis = 0\<rparr>)
           = (regs 
            \<lparr>regs = (\<lambda>_. 0)(TCCR0A := 1, TCCR0B := 12, TIFR0 := 2), System_millis = 0\<rparr>)(TCCR0A := regs (millis_Init atmega328_bits 
            \<lparr>regs = (\<lambda>_. 0)(TCCR0A := 1, TCCR0B := 12, TIFR0 := 2), System_millis = 0\<rparr>) TCCR0A,
                      TCCR0B := regs (millis_Init atmega328_bits 
            \<lparr>regs = (\<lambda>_. 0)(TCCR0A := 1, TCCR0B := 12, TIFR0 := 2), System_millis = 0\<rparr>) TCCR0B)
       \<and> regs (run (take 7 (millis_Init_body atmega328_bits)) 
            \<lparr>regs = (\<lambda>_. 0)(TCCR0A := 1, TCCR0B := 12, TIFR0 := 2), System_millis = 0\<rparr>)
           = (regs (run (take 6 (millis_Init_body atmega328_bits)) 
            \<lparr>regs = (\<lambda>_. 0)(TCCR0A := 1, TCCR0B := 12, TIFR0 := 2), System_millis = 0\<rparr>))
               (TIMSK0 := regs (millis_Init atmega328_bits 
            \<lparr>regs = (\<lambda>_. 0)(TCCR0A := 1, TCCR0B := 12, TIFR0 := 2), System_millis = 0\<rparr>) TIMSK0)
       \<and> regs (run (take 8 (millis_Init_body atmega328_bits)) 
            \<lparr>regs = (\<lambda>_. 0)(TCCR0A := 1, TCCR0B := 12, TIFR0 := 2), System_millis = 0\<rparr>)
           = (regs (run (take 7 (millis_Init_body atmega328_bits)) 
            \<lparr>regs = (\<lambda>_. 0)(TCCR0A := 1, TCCR0B := 12, TIFR0 := 2), System_millis = 0\<rparr>))
               (TIFR0 := regs (millis_Init atmega328_bits 
            \<lparr>regs = (\<lambda>_. 0)(TCCR0A := 1, TCCR0B := 12, TIFR0 := 2), System_millis = 0\<rparr>) TIFR0)
       \<and> regs (millis_Init atmega328_bits 
            \<lparr>regs = (\<lambda>_. 0)(TCCR0A := 1, TCCR0B := 12, TIFR0 := 2), System_millis = 0\<rparr>)
           = (regs (run (take 8 (millis_Init_body atmega328_bits)) 
            \<lparr>regs = (\<lambda>_. 0)(TCCR0A := 1, TCCR0B := 12, TIFR0 := 2), System_millis = 0\<rparr>))(OCR0A := 249)
       \<and> \<not> bit (regs (millis_Init atmega328_bits 
            \<lparr>regs = (\<lambda>_. 0)(TCCR0A := 1, TCCR0B := 12, TIFR0 := 2), System_millis = 0\<rparr>) TCCR0B) (WGM02 atmega328_bits)
       \<and> bit (regs (millis_Init atmega328_bits 
            \<lparr>regs = (\<lambda>_. 0)(TCCR0A := 1, TCCR0B := 12, TIFR0 := 2), System_millis = 0\<rparr>) TCCR0A) (WGM01 atmega328_bits)
       \<and> \<not> bit (regs (millis_Init atmega328_bits 
            \<lparr>regs = (\<lambda>_. 0)(TCCR0A := 1, TCCR0B := 12, TIFR0 := 2), System_millis = 0\<rparr>) TCCR0A) (WGM00 atmega328_bits)
       \<and> \<not> bit (regs (millis_Init atmega328_bits 
            \<lparr>regs = (\<lambda>_. 0)(TCCR0A := 1, TCCR0B := 12, TIFR0 := 2), System_millis = 0\<rparr>) TCCR0B) (CS02 atmega328_bits)
       \<and> bit (regs (millis_Init atmega328_bits 
            \<lparr>regs = (\<lambda>_. 0)(TCCR0A := 1, TCCR0B := 12, TIFR0 := 2), System_millis = 0\<rparr>) TCCR0B) (CS01 atmega328_bits)
       \<and> bit (regs (millis_Init atmega328_bits 
            \<lparr>regs = (\<lambda>_. 0)(TCCR0A := 1, TCCR0B := 12, TIFR0 := 2), System_millis = 0\<rparr>) TCCR0B) (CS00 atmega328_bits)
       \<and> bit (regs (millis_Init atmega328_bits 
            \<lparr>regs = (\<lambda>_. 0)(TCCR0A := 1, TCCR0B := 12, TIFR0 := 2), System_millis = 0\<rparr>) TIMSK0) (OCIE0A atmega328_bits)
       \<and> \<not> bit (regs (millis_Init atmega328_bits 
            \<lparr>regs = (\<lambda>_. 0)(TCCR0A := 1, TCCR0B := 12, TIFR0 := 2), System_millis = 0\<rparr>) TIFR0) (OCF0A atmega328_bits))"
proof -
  have h: "wf_bits atmega328_bits"
    by (simp add: wf_bits_def atmega328_bits_def)
  show ?thesis
    using h millis_Init_order [OF h, of
        "\<lparr>regs = (\<lambda>_. 0)(TCCR0A := 1, TCCR0B := 12, TIFR0 := 2), System_millis = 0\<rparr>"]
    by (rule conjI)
qed

text \<open>
  C3: one run of the interrupt handler adds exactly one to \<^verbatim>\<open>System_millis\<close>, in 32-bit
  unsigned arithmetic (after \<open>2 ^ 32 - 1\<close> comes 0), and changes nothing else. No other
  operation writes the counter: no statement of the register primitives does, and
  \<open>millis_Init\<close> returns with the counter it was called with.
\<close>

theorem System_millis_single_writer:
  "System_millis (TIMER0_COMPA_vect s) = System_millis s + 1
   \<and> unat (System_millis (TIMER0_COMPA_vect s)) = (unat (System_millis s) + 1) mod 2 ^ 32
   \<and> System_millis (TIMER0_COMPA_vect s) \<noteq> System_millis s
   \<and> regs (TIMER0_COMPA_vect s) = regs s
   \<and> avr_state.more (TIMER0_COMPA_vect s) = avr_state.more s
   \<and> System_millis (exec st s) = System_millis s
   \<and> System_millis (millis_Init b s) = System_millis s"
  by (simp add: TIMER0_COMPA_vect_def unat_word_ariths System_millis_exec
      System_millis_millis_Init)

text \<open>
  C4: the elapsed time is \<open>(now - previous) mod 2 ^ 32\<close>, for all 32-bit values. With
  \<open>previous = 2 ^ 32 - 1\<close> and \<open>now = 0\<close> it is 1; with \<open>previous = 4294967294\<close> and
  \<open>now = 1\<close> it is 3.
\<close>

theorem elapsed_wrapping:
  "uint (fst (elapsed t now)) = (uint now - uint (Previous t)) mod 2 ^ 32
   \<and> fst (elapsed (t\<lparr>Previous := 2 ^ 32 - 1\<rparr>) 0) = 1
   \<and> fst (elapsed (t\<lparr>Previous := 4294967294\<rparr>) 1) = 3
   \<and> fst (elapsed (advance t 4294967294) 1) = 3"
  by (simp add: elapsed_def advance_def uint_word_ariths)

text \<open>
  C5: \<open>expired t now\<close> holds if and only if the elapsed time is at least the interval,
  that is, \<open>interval \<le> (now - previous) mod 2 ^ 32\<close>. Computing the elapsed time caches
  it in \<open>delta\<close> and leaves \<open>previous\<close> and \<open>interval\<close> as they are, so that asking again
  with the same \<open>now\<close> gives the same elapsed time and the same answer.
\<close>

theorem expired_iff_elapsed:
  "expired t now = (Interval t \<le> fst (elapsed t now))
   \<and> expired t now = (uint (Interval t) \<le> (uint now - uint (Previous t)) mod 2 ^ 32)
   \<and> Previous (snd (elapsed t now)) = Previous t
   \<and> Interval (snd (elapsed t now)) = Interval t
   \<and> elapsed (snd (elapsed t now)) now = elapsed t now
   \<and> expired (snd (elapsed t now)) now = expired t now"
  by (simp add: expired_def elapsed_def word_le_def uint_word_ariths)

text \<open>
  C6: a timer with interval 1000 and previous 0 (and any cached delta) has not expired
  at 999 and has expired at 1000; after \<open>advance\<close> to 1000 its previous is 1000 and it
  has not expired at 1000.
\<close>

theorem interval_1000_scenario:
  "\<not> expired \<lparr>Previous = 0, Delta = d, Interval = 1000\<rparr> 999
   \<and> expired \<lparr>Previous = 0, Delta = d, Interval = 1000\<rparr> 1000
   \<and> Previous (advance \<lparr>Previous = 0, Delta = d, Interval = 1000\<rparr> 1000) = 1000
   \<and> \<not> expired (advance \<lparr>Previous = 0, Delta = d, Interval = 1000\<rparr> 1000) 1000"
  by (simp add: expired_def elapsed_def advance_def)

text \<open>
  C7: a timer with interval 0 has expired at every \<open>now\<close> that is at least its previous
  value. The answer is an ordinary \<open>True\<close>: the operation has no error result.
\<close>

theorem expired_interval_zero:
  assumes "Interval t = 0" and "Previous t \<le> now"
  shows "expired t now"
  using assms by (simp add: expired_def)

theorem expired_interval_zero_witness:
  "Interval \<lparr>Previous = 5, Delta = 0, Interval = 0\<rparr> = 0
   \<and> Previous \<lparr>Previous = 5, Delta = 0, Interval = 0\<rparr> \<le> 7
   \<and> expired \<lparr>Previous = 5, Delta = 0, Interval = 0\<rparr> 7"
proof -
  have i: "Interval \<lparr>Previous = 5, Delta = 0, Interval = 0\<rparr> = 0"
    by simp
  have p: "Previous \<lparr>Previous = 5, Delta = 0, Interval = 0\<rparr> \<le> 7"
    by simp
  from i p expired_interval_zero [OF i p] show ?thesis
    by blast
qed

text \<open>
  C8: the counter is an unsigned integer of 32 bits, and its declared initial value is
  zero.
\<close>

theorem System_millis_declared_zero:
  "System_millis_init = 0
   \<and> unat System_millis_init = 0
   \<and> size System_millis_init = 32
   \<and> size (System_millis s) = 32
   \<and> unat (System_millis s) < 2 ^ 32"
proof -
  have "unat (System_millis s) < 2 ^ LENGTH(32)"
    by (rule unsigned_less)
  then show ?thesis
    by (simp add: System_millis_init_def word_size)
qed

text \<open>
  C9: \<open>millis_Init\<close> writes the five timer registers \<^verbatim>\<open>TCCR0A\<close>, \<^verbatim>\<open>TCCR0B\<close>,
  \<^verbatim>\<open>TIMSK0\<close>, \<^verbatim>\<open>TIFR0\<close>, \<^verbatim>\<open>OCR0A\<close> and nothing else: the status register with the
  global interrupt enable, the tick counter and the rest of the state are those of the
  call.
\<close>

theorem millis_Init_frame:
  "set (map target (millis_Init_body b)) = {TCCR0A, TCCR0B, TIMSK0, TIFR0, OCR0A}
   \<and> regs (millis_Init b s) SREG = regs s SREG
   \<and> System_millis (millis_Init b s) = System_millis s
   \<and> avr_state.more (millis_Init b s) = avr_state.more s
   \<and> millis_Init b s = s\<lparr>regs := (regs s)
        (TCCR0A := regs (millis_Init b s) TCCR0A,
         TCCR0B := regs (millis_Init b s) TCCR0B,
         TIMSK0 := regs (millis_Init b s) TIMSK0,
         TIFR0 := regs (millis_Init b s) TIFR0,
         OCR0A := regs (millis_Init b s) OCR0A)\<rparr>"
proof -
  have targets: "set (map target (millis_Init_body b)) = {TCCR0A, TCCR0B, TIMSK0, TIFR0, OCR0A}"
    by (simp add: millis_Init_body_def insert_commute)
  have sreg: "regs (millis_Init b s) SREG = regs s SREG"
    by (simp add: regs_millis_Init)
  have whole: "millis_Init b s = s\<lparr>regs := (regs s)
        (TCCR0A := regs (millis_Init b s) TCCR0A,
         TCCR0B := regs (millis_Init b s) TCCR0B,
         TIMSK0 := regs (millis_Init b s) TIMSK0,
         TIFR0 := regs (millis_Init b s) TIFR0,
         OCR0A := regs (millis_Init b s) OCR0A)\<rparr>"
    by (rule avr_state.equality)
      (simp_all add: System_millis_millis_Init more_millis_Init regs_millis_Init fun_eq_iff)
  from targets sreg whole show ?thesis
    by (simp add: System_millis_millis_Init more_millis_Init)
qed

text \<open>
  C10: calling \<open>millis_Init\<close> a second time changes nothing: for every state and for all
  bit numbers, the state after two calls is the state after one.
\<close>

theorem millis_Init_idempotent:
  "millis_Init b (millis_Init b s) = millis_Init b s"
proof (rule avr_state.equality)
  show "regs (millis_Init b (millis_Init b s)) = regs (millis_Init b s)"
    by (simp add: regs_millis_Init [of b "millis_Init b s"] regs_millis_Init [of b s]
        clear_set_idem prescaler_idem fun_eq_iff del: push_bit_of_1)
  show "System_millis (millis_Init b (millis_Init b s)) = System_millis (millis_Init b s)"
    by (simp add: System_millis_millis_Init)
  show "avr_state.more (millis_Init b (millis_Init b s)) = avr_state.more (millis_Init b s)"
    by (simp add: more_millis_Init)
qed

end
